theory Spec2Isabelle
  imports Complex_Main "HOL-Library.AList"
begin

section \<open>Python values, strings and exceptions\<close>

text \<open>
  The pipeline is modelled as pure functions over explicit collaborators: the search
  backend, the completion endpoint, the JSON parser and the process environment are
  parameters of the functions that use them.

  A Python \<open>str\<close> is a \<open>string\<close>, one \<open>char\<close> per code point, for code points below 256.
  A Python \<open>float\<close> is the rational number it denotes: binary rounding error, overflow,
  infinities and NaN are outside the model. An \<open>exn\<close> is an instance of a subclass of
  Python's \<open>Exception\<close>, with the text \<open>str(e)\<close> gives for it.
\<close>

datatype exn =
    TypeError string
  | RuntimeError string
  | AttributeError string
  | IndexError string
  | KeyError string
  | ExternalError string string

text \<open>\<open>ExternalError cls msg\<close> is an exception raised inside a collaborator (a timeout, an
  authentication error, a JSON decode error), of class \<open>cls\<close> with message \<open>msg\<close>.\<close>

fun str_exn :: "exn \<Rightarrow> string" where
  "str_exn (TypeError m) = m"
| "str_exn (RuntimeError m) = m"
| "str_exn (AttributeError m) = m"
| "str_exn (IndexError m) = m"
| "str_exn (KeyError k) = [CHR 0x27] @ k @ [CHR 0x27]"
| "str_exn (ExternalError c m) = m"

text \<open>The values a query or a command-line attribute can be.\<close>

datatype pyval = PyNone | PyBool bool | PyInt int | PyStr string

text \<open>\<open>isinstance(v, str)\<close>.\<close>

fun is_str :: "pyval \<Rightarrow> bool" where
  "is_str (PyStr s) = True"
| "is_str v = False"

text \<open>Truth value testing, as \<open>if x\<close>, \<open>not x\<close> and \<open>x or y\<close> do it.\<close>

fun truthy :: "pyval \<Rightarrow> bool" where
  "truthy PyNone = False"
| "truthy (PyBool b) = b"
| "truthy (PyInt n) = (n \<noteq> 0)"
| "truthy (PyStr s) = (s \<noteq> [])"

text \<open>An \<open>Optional[str]\<close>: \<open>None\<close> is Python's \<open>None\<close>.\<close>

definition truthy_opt :: "string option \<Rightarrow> bool" where
  "truthy_opt v = (case v of None \<Rightarrow> False | Some s \<Rightarrow> s \<noteq> [])"

definition py_or :: "string option \<Rightarrow> string option \<Rightarrow> string option" where
  "py_or a b = (if truthy_opt a then a else b)"

definition or_str :: "string option \<Rightarrow> string \<Rightarrow> string" where
  "or_str a d = (case a of None \<Rightarrow> d | Some s \<Rightarrow> if s \<noteq> [] then s else d)"

text \<open>How an f-string and \<open>print\<close> show an \<open>Optional[str]\<close>.\<close>

definition fmt_opt :: "string option \<Rightarrow> string" where
  "fmt_opt v = (case v of None \<Rightarrow> ''None'' | Some s \<Rightarrow> s)"

text \<open>\<open>str(n)\<close> for a non-negative integer.\<close>

definition digit_char :: "nat \<Rightarrow> char" where
  "digit_char d = char_of (48 + d)"

fun str_nat :: "nat \<Rightarrow> string" where
  "str_nat n = (if n < 10 then [digit_char n] else str_nat (n div 10) @ [digit_char (n mod 10)])"

declare str_nat.simps [simp del]

text \<open>\<open>sep.join(xs)\<close>.\<close>

fun join :: "string \<Rightarrow> string list \<Rightarrow> string" where
  "join sep [] = []"
| "join sep [x] = x"
| "join sep (x # y # ys) = x @ sep @ join sep (y # ys)"

text \<open>The characters \<open>str.isspace\<close> accepts, below code point 256.\<close>

definition is_space :: "char \<Rightarrow> bool" where
  "is_space c = (let n = (of_char c :: nat) in
     (9 \<le> n \<and> n \<le> 13) \<or> (28 \<le> n \<and> n \<le> 32) \<or> n = 133 \<or> n = 160)"

text \<open>\<open>s.strip()\<close> and \<open>s.split()\<close> without arguments.\<close>

definition strip :: "string \<Rightarrow> string" where
  "strip s = rev (dropWhile is_space (rev (dropWhile is_space s)))"

fun split_ws :: "string \<Rightarrow> string \<Rightarrow> string list" where
  "split_ws [] cur = (if cur = [] then [] else [cur])"
| "split_ws (c # cs) cur =
     (if is_space c then (if cur = [] then split_ws cs [] else cur # split_ws cs [])
      else split_ws cs (cur @ [c]))"

definition split_str :: "string \<Rightarrow> string list" where
  "split_str s = split_ws s []"

section \<open>Search provider (search\_ddg.py)\<close>

text \<open>
  An item of the backend is a dictionary from key names to strings; a key that is missing
  and a key bound to \<open>None\<close> both read as \<open>None\<close> through \<open>item.get\<close>.
\<close>

type_synonym item = "string \<rightharpoonup> string"

record search_result =
  title :: "string option"
  url :: "string option"
  description :: "string option"

text \<open>
  What iterating \<open>ddgs.text(...)\<close> inside \<open>with DDGS() as ddgs\<close> does: it yields an item
  and goes on, ends, or raises. A failure of \<open>DDGS()\<close> or of the call itself is a stream
  that raises at once.
\<close>

datatype stream = Yield item stream | Stop | Raises exn

type_synonym backend = "string \<Rightarrow> string \<Rightarrow> string \<Rightarrow> stream"

definition to_result :: "item \<Rightarrow> search_result" where
  "to_result item =
     \<lparr> title = item ''title'',
       url = py_or (py_or (item ''link'') (item ''url'')) (item ''href''),
       description = py_or (py_or (item ''body'') (item ''desc'')) None \<rparr>"

text \<open>
  The \<open>for\<close> loop of \<open>search_duckduckgo\<close> with its \<open>try\<close>: the results collected and the
  lines printed. Each item is appended before the length is compared with \<open>max_results\<close>.
\<close>

fun collect :: "stream \<Rightarrow> int \<Rightarrow> search_result list \<Rightarrow> search_result list \<times> string list" where
  "collect Stop max_results results = (results, [])"
| "collect (Raises e) max_results results =
     (results, [''Error during DuckDuckGo search: '' @ str_exn e])"
| "collect (Yield item rest) max_results results =
     (let results' = results @ [to_result item]
      in if int (length results') \<ge> max_results then (results', [])
         else collect rest max_results results')"

text \<open>\<open>ddgs = None\<close> is \<open>DDGS is None\<close>: the import of the backend failed.\<close>

definition search_duckduckgo ::
  "backend option \<Rightarrow> pyval \<Rightarrow> int \<Rightarrow> string \<Rightarrow> string \<Rightarrow> exn + search_result list \<times> string list"
where
  "search_duckduckgo ddgs query max_results safesearch timelimit =
     (case query of
        PyStr q \<Rightarrow>
          (case ddgs of
             None \<Rightarrow> Inl (RuntimeError
               (''ddgs library is not available. Install with '' @ [CHR 0x27] @ ''pip install ddgs'' @ [CHR 0x27]))
           | Some text \<Rightarrow> Inr (collect (text q safesearch timelimit) max_results []))
      | _ \<Rightarrow> Inl (TypeError ''query must be a string''))"

section \<open>Completion endpoint\<close>

text \<open>
  A request to \<open>client.chat.completions.create\<close>: the model, the messages as pairs of
  role and content, and the fixed bounds the two callers pass. The endpoint raises or
  returns a response, of which the code reads the \<open>message.content\<close> of each choice
  (\<open>None\<close> where the content is \<open>None\<close>).
\<close>

record request =
  req_model :: string
  messages :: "(string \<times> string) list"
  max_tokens :: nat
  temperature :: nat
  timeout :: "nat option"

type_synonym completion = "request \<Rightarrow> exn + string option list"

text \<open>\<open>resp.choices[0].message.content.strip()\<close>.\<close>

definition first_content :: "string option list \<Rightarrow> exn + string" where
  "first_content choices =
     (case choices of
        [] \<Rightarrow> Inl (IndexError ''list index out of range'')
      | c # _ \<Rightarrow>
          (case c of
             None \<Rightarrow> Inl (AttributeError
               ([CHR 0x27] @ ''NoneType'' @ [CHR 0x27] @ '' object has no attribute ''
                 @ [CHR 0x27] @ ''strip'' @ [CHR 0x27]))
           | Some t \<Rightarrow> Inr (strip t)))"

section \<open>Answer generator (rag\_agent.py)\<close>

record answer_result =
  query :: string
  answer :: string
  sources :: "search_result list"

text \<open>The body of the loop over \<open>enumerate(results, start=1)\<close>: one indexed block.\<close>

definition context_block :: "nat \<Rightarrow> search_result \<Rightarrow> string" where
  "context_block i r =
     (let title = or_str (title r) ''(no title)'';
          url = or_str (url r) ''(no url)'';
          desc = or_str (description r) []
      in ''['' @ str_nat i @ ''] '' @ title @ ''\<newline>'' @ url @ ''\<newline>'' @ desc)"

fun build_docs :: "nat \<Rightarrow> search_result list \<Rightarrow> string list" where
  "build_docs i [] = []"
| "build_docs i (r # rs) = context_block i r # build_docs (Suc i) rs"

definition build_context :: "search_result list \<Rightarrow> string" where
  "build_context results = join ''\<newline>\<newline>'' (build_docs 1 results)"

definition system_prompt :: string where
  "system_prompt =
     ''You are a helpful assistant. Answer the user'' @ [CHR 0x27]
       @ ''s question using only the content in provided''
       @ '' webpages from search results. Cite sources by their number in square brackets, e.g. [1].''"

definition user_prompt :: "string \<Rightarrow> string \<Rightarrow> string" where
  "user_prompt q context =
     ''Question: '' @ q @ ''\<newline>\<newline>Search results:\<newline>'' @ context @ ''\<newline>\<newline>''
       @ ''Answer concisely and list which sources you used at the end.''"

text \<open>The \<open>try\<close> block of \<open>rag_answer\<close>: the call and the reading of its answer.\<close>

definition answer_request :: "string \<Rightarrow> string \<Rightarrow> string \<Rightarrow> request" where
  "answer_request model q context =
     \<lparr> req_model = model,
       messages = [(''system'', system_prompt), (''user'', user_prompt q context)],
       max_tokens = 512, temperature = 1, timeout = Some 60 \<rparr>"

definition generate :: "completion \<Rightarrow> string \<Rightarrow> string \<Rightarrow> string \<Rightarrow> exn + string" where
  "generate create model q context =
     (case create (answer_request model q context) of
        Inl e \<Rightarrow> Inl e
      | Inr choices \<Rightarrow> first_content choices)"

definition no_key_text :: string where
  "no_key_text =
     ''No DEEPSEEK_API_KEY set or `openai` package not found. Returning aggregated search snippets:\<newline>\<newline>''"

text \<open>
  \<open>api_key\<close> is \<open>os.environ.get("DEEPSEEK_API_KEY")\<close>. The module imports \<open>OpenAI\<close>
  unconditionally, so \<open>OpenAI is not None\<close> holds wherever the function runs. The second
  component of the result is what the search stage printed. Past the search stage the
  query is a string, since the search stage raises for any other value.
\<close>

definition rag_answer ::
  "backend option \<Rightarrow> string option \<Rightarrow> completion \<Rightarrow> pyval \<Rightarrow> int \<Rightarrow> string
     \<Rightarrow> exn + answer_result \<times> string list"
where
  "rag_answer ddgs api_key create query_val max_results model =
     (case search_duckduckgo ddgs query_val max_results ''moderate'' ''m'' of
        Inl e \<Rightarrow> Inl e
      | Inr (results, logged) \<Rightarrow>
          (case query_val of
             PyStr q \<Rightarrow>
               (let context = build_context results
                in if truthy_opt api_key then
                     (case generate create model q context of
                        Inr text \<Rightarrow>
                          Inr (\<lparr> query = q, answer = text, sources = results \<rparr>, logged)
                      | Inl e \<Rightarrow>
                          Inr (\<lparr> query = q,
                                 answer = ''DeepSeek API error: '' @ str_exn e
                                   @ ''\<newline>\<newline>Fallback search results:\<newline>'' @ context,
                                 sources = results \<rparr>, logged))
                   else
                     Inr (\<lparr> query = q, answer = no_key_text @ context, sources = results \<rparr>,
                          logged))
           | _ \<Rightarrow> Inl (TypeError ''query must be a string'')))"

section \<open>Response evaluator (evaluator.py)\<close>

text \<open>
  What \<open>json.loads\<close> returns, and the values of a report. A \<open>JObj\<close> is a dictionary, its
  keys in insertion order.
\<close>

datatype json =
    JNull
  | JBool bool
  | JInt int
  | JFloat rat
  | JStr string
  | JArr "json list"
  | JObj "(string \<times> json) list"

type_synonym report = "(string \<times> json) list"

type_synonym parser = "string \<Rightarrow> exn + json"

definition quoted :: "string \<Rightarrow> string" where
  "quoted s = [CHR 0x27] @ s @ [CHR 0x27]"

text \<open>\<open>d.get(k, default)\<close> and \<open>d[k] = v\<close> on a dictionary.\<close>

definition dict_get :: "report \<Rightarrow> string \<Rightarrow> json \<Rightarrow> json" where
  "dict_get d k dflt = (case map_of d k of None \<Rightarrow> dflt | Some v \<Rightarrow> v)"

definition dict_set :: "report \<Rightarrow> string \<Rightarrow> json \<Rightarrow> report" where
  "dict_set d k v = AList.update k v d"

text \<open>\<open>type(v).__name__\<close>.\<close>

fun type_name :: "json \<Rightarrow> string" where
  "type_name JNull = ''NoneType''"
| "type_name (JBool b) = ''bool''"
| "type_name (JInt n) = ''int''"
| "type_name (JFloat x) = ''float''"
| "type_name (JStr s) = ''str''"
| "type_name (JArr xs) = ''list''"
| "type_name (JObj kvs) = ''dict''"

text \<open>
  \<open>v * w\<close> for a float \<open>w\<close>: a number (a Boolean counts as 0 or 1) is multiplied, a sequence
  and every other value raise \<open>TypeError\<close>.
\<close>

fun times_float :: "json \<Rightarrow> rat \<Rightarrow> exn + rat" where
  "times_float (JInt n) w = Inr (of_int n * w)"
| "times_float (JFloat x) w = Inr (x * w)"
| "times_float (JBool b) w = Inr ((if b then 1 else 0) * w)"
| "times_float (JStr s) w =
     Inl (TypeError (''can'' @ [CHR 0x27] @ ''t multiply sequence by non-int of type '' @ quoted ''float''))"
| "times_float (JArr xs) w =
     Inl (TypeError (''can'' @ [CHR 0x27] @ ''t multiply sequence by non-int of type '' @ quoted ''float''))"
| "times_float v w =
     Inl (TypeError (''unsupported operand type(s) for *: '' @ quoted (type_name v)
        @ '' and '' @ quoted ''float''))"

text \<open>\<open>round(x, 1)\<close>: to the nearest tenth, a tie to the even one.\<close>

definition py_round1 :: "rat \<Rightarrow> rat" where
  "py_round1 x =
     (let y = x * 10;
          f = \<lfloor>y\<rfloor>;
          d = y - of_int f;
          n = (if d < 1 / 2 then f else if 1 / 2 < d then f + 1 else if even f then f else f + 1)
      in of_int n / 10)"

text \<open>
  The weighted sum, left to right as Python evaluates it: each score is read with its
  default and multiplied before the next one is read.
\<close>

definition weighted_overall :: "report \<Rightarrow> exn + rat" where
  "weighted_overall d =
     (case times_float (dict_get d ''accuracy_score'' (JInt 5)) (3 / 10) of
        Inl e \<Rightarrow> Inl e
      | Inr a \<Rightarrow>
     (case times_float (dict_get d ''relevance_score'' (JInt 5)) (3 / 10) of
        Inl e \<Rightarrow> Inl e
      | Inr r \<Rightarrow>
     (case times_float (dict_get d ''search_quality'' (JInt 5)) (3 / 10) of
        Inl e \<Rightarrow> Inl e
      | Inr s \<Rightarrow>
     (case times_float (dict_get d ''citation_quality'' (JInt 5)) (1 / 10) of
        Inl e \<Rightarrow> Inl e
      | Inr c \<Rightarrow> Inr (a + r + s + c)))))"

definition source_line :: "search_result \<Rightarrow> string" where
  "source_line s =
     ''- '' @ fmt_opt (title s) @ '': '' @ fmt_opt (url s) @ ''\<newline>  '' @ fmt_opt (description s)"

definition sources_text :: "search_result list \<Rightarrow> string" where
  "sources_text srcs = join ''\<newline>'' (map source_line srcs)"

definition eval_prompt :: "string \<Rightarrow> string \<Rightarrow> string \<Rightarrow> string" where
  "eval_prompt q ans stext =
     ''You are an expert evaluator assessing agent'' @ [CHR 0x27]
       @ ''s responses to query based on sources materials used.\<newline>''
     @ ''\<newline>''
     @ ''User Query: '' @ q @ ''\<newline>''
     @ ''\<newline>''
     @ ''Generated Answer:\<newline>''
     @ ans @ ''\<newline>''
     @ ''\<newline>''
     @ ''Source Material Used:\<newline>''
     @ stext @ ''\<newline>''
     @ ''\<newline>''
     @ ''Evaluate the response on these criteria:\<newline>''
     @ ''1. **Accuracy (0-10)**: How factually correct and supported by sources is the answer?\<newline>''
     @ ''2. **Relevance (0-10)**: How much and directly does the answer address the user''
       @ [CHR 0x27] @ ''s query?\<newline>''
     @ ''3. **Search quality (0-10)**: Does the search results complete and reflect up-to-date and authoritative information to the query?\<newline>''
     @ ''4. **Citation Quality (0-10)**: Are sources properly cited and used appropriately?\<newline>''
     @ ''\<newline>''
     @ ''\<newline>''
     @ ''Respond in JSON format only with this exact structure (no markdown, no code blocks):\<newline>''
     @ ''{\<newline>''
     @ ''  \"accuracy_score\": <int 0-10>,\<newline>''
     @ ''  \"relevance_score\": <int 0-10>,\<newline>''
     @ ''  \"search_quality\": <int 0-10>,\<newline>''
     @ ''  \"citation_quality\": <int 0-10>,\<newline>''
     @ ''  \"feedback\": \"<brief explanation of scores>\",\<newline>''
     @ ''  \"strengths\": \"<what the response does well>\",\<newline>''
     @ ''  \"opportunity\": \"<what could be improved>\"\<newline>''
     @ ''}''"

text \<open>
  The \<open>try\<close> block of \<open>evaluate_response\<close>: the call, the parse, the overall score.
  \<open>eval_dict.get\<close> raises \<open>AttributeError\<close> on a parsed value that is no dictionary.
\<close>

definition eval_request :: "string \<Rightarrow> string \<Rightarrow> request" where
  "eval_request model prompt =
     \<lparr> req_model = model, messages = [(''user'', prompt)],
       max_tokens = 512, temperature = 1, timeout = None \<rparr>"

definition eval_try ::
  "completion \<Rightarrow> parser \<Rightarrow> string \<Rightarrow> string \<Rightarrow> exn + report"
where
  "eval_try create loads model prompt =
     (case create (eval_request model prompt) of
        Inl e \<Rightarrow> Inl e
      | Inr choices \<Rightarrow>
     (case first_content choices of
        Inl e \<Rightarrow> Inl e
      | Inr eval_text \<Rightarrow>
     (case loads eval_text of
        Inl e \<Rightarrow> Inl e
      | Inr v \<Rightarrow>
     (case v of
        JObj eval_dict \<Rightarrow>
          (case weighted_overall eval_dict of
             Inl e \<Rightarrow> Inl e
           | Inr overall \<Rightarrow> Inr (dict_set eval_dict ''overall_score'' (JFloat (py_round1 overall))))
      | _ \<Rightarrow> Inl (AttributeError
                 (quoted (type_name v) @ '' object has no attribute '' @ quoted ''get''))))))"

text \<open>The report of the \<open>except\<close> branch.\<close>

definition neutral_report :: "exn \<Rightarrow> report" where
  "neutral_report e =
     [(''accuracy_score'', JInt 5),
      (''relevance_score'', JInt 5),
      (''citation_quality'', JInt 5),
      (''search_quality'', JInt 5),
      (''overall_score'', JFloat 5),
      (''feedback'', JStr (''Evaluation failed: '' @ str_exn e @ ''. Using neutral scores.'')),
      (''strengths'', JStr ''Evaluation system error, unable to evaluate.''),
      (''opportunity'', JStr ''Evaluation system error, unable to evaluate.'')]"

definition fallback_evaluation ::
  "string option \<Rightarrow> string \<Rightarrow> string \<Rightarrow> search_result list \<Rightarrow> report"
where
  "fallback_evaluation api_key q ans srcs =
     (let answer_len = length (split_str ans);
          has_citations = (CHR ''['' \<in> set ans \<and> CHR '']'' \<in> set ans);
          has_sources = (length srcs > 0);
          accuracy = (if has_sources then 6 else 4 :: int);
          relevance = (if answer_len > 20 then 7 else 5 :: int);
          citation = (if has_citations then 8 else 4 :: int)
      in [(''accuracy_score'', JInt accuracy),
          (''relevance_score'', JInt relevance),
          (''citation_quality'', JInt citation),
          (''overall_score'', JFloat (py_round1 (of_int (accuracy + relevance + citation) / 3))),
          (''feedback'', JStr ''Heuristic evaluation (no LLM available). Actual quality may vary.''),
          (''strengths'',
             JStr (if answer_len > 10 then ''Response generated successfully'' else ''Short response'')),
          (''opportunity'',
             JStr (if \<not> truthy_opt api_key then ''Use OpenAI API key for evaluation''
                   else ''None detected''))])"

text \<open>
  \<open>evaluate_response\<close>: \<open>Inl\<close> would be an exception that leaves the function.
\<close>

definition evaluate_response ::
  "string option \<Rightarrow> completion \<Rightarrow> parser \<Rightarrow> string \<Rightarrow> string \<Rightarrow> search_result list \<Rightarrow> string
     \<Rightarrow> exn + report"
where
  "evaluate_response api_key create loads q ans srcs model =
     (if \<not> truthy_opt api_key then Inr (fallback_evaluation api_key q ans srcs)
      else
        (case eval_try create loads model (eval_prompt q ans (sources_text srcs)) of
           Inr eval_dict \<Rightarrow> Inr eval_dict
         | Inl e \<Rightarrow> Inr (neutral_report e)))"

section \<open>Command surface (cli.py)\<close>

text \<open>
  The namespace \<open>parse_args\<close> returns for the parser \<open>build_parser\<close> declares: the words of
  the positional \<open>query\<close>, and one attribute per option.
\<close>

record args =
  ns_query :: "string list"
  ns_max_results :: int
  ns_model :: string
  ns_deepseek_key :: "string option"
  ns_evaluate :: pyval
  ns_eval_model :: string

text \<open>The defaults \<open>build_parser\<close> gives, for a command line without arguments.\<close>

definition default_args :: args where
  "default_args =
     \<lparr> ns_query = [], ns_max_results = 5, ns_model = ''deepseek-chat'',
       ns_deepseek_key = None, ns_evaluate = PyBool True, ns_eval_model = ''deepseek-chat'' \<rparr>"

text \<open>
  \<open>p.add_argument('--evaluate', default = True, help=...)\<close> names neither a \<open>type\<close> nor an
  \<open>action\<close>: the attribute is the default \<open>True\<close> when the option is absent, and the
  argument string itself when \<open>--evaluate <string>\<close> is given.
\<close>

definition evaluate_attr :: "string option \<Rightarrow> pyval" where
  "evaluate_attr given = (case given of None \<Rightarrow> PyBool True | Some s \<Rightarrow> PyStr s)"

text \<open>
  The collaborators of a run: the search backend (\<open>None\<close> when its import failed), the
  variable \<open>DEEPSEEK_API_KEY\<close> of the environment, the completion endpoint, \<open>json.loads\<close>,
  and the line \<open>input\<close> reads.
\<close>

record world =
  w_ddgs :: "backend option"
  w_environ :: "string option"
  w_create :: completion
  w_loads :: parser
  w_stdin :: string

text \<open>
  Standard output, one element per call of \<open>print\<close>: a text, or an f-string around a value
  of the report, kept as the value.
\<close>

datatype printed = Line string | Fmt string json string

fun print_sources :: "nat \<Rightarrow> search_result list \<Rightarrow> printed list" where
  "print_sources i [] = []"
| "print_sources i (s # ss) =
     Line (''['' @ str_nat i @ '']'' @ '' '' @ fmt_opt (title s) @ '' - '' @ fmt_opt (url s))
       # print_sources (Suc i) ss"

text \<open>
  The eight \<open>print\<close> calls of the report, in order: the text before the value, the key
  read with \<open>eval_result[key]\<close>, the text after it.
\<close>

definition report_fields :: "(string \<times> string \<times> string) list" where
  "report_fields =
     [(''Accuracy Score:      '', ''accuracy_score'', ''/10''),
      (''Relevance Score:     '', ''relevance_score'', ''/10''),
      (''Search Quality:     '', ''search_quality'', ''/10''),
      (''Citation Quality:    '', ''citation_quality'', ''/10''),
      (''Overall Score:       '', ''overall_score'', ''/10''),
      (''\<newline>Feedback: '', ''feedback'', []),
      (''Strengths: '', ''strengths'', []),
      (''Opportunity: '', ''opportunity'', [])]"

text \<open>Subscripting a dictionary with a missing key raises \<open>KeyError\<close>; the lines printed
  before it stay printed.\<close>

fun print_fields ::
  "(string \<times> string \<times> string) list \<Rightarrow> report \<Rightarrow> printed list \<Rightarrow> printed list \<times> exn option"
where
  "print_fields [] d out = (out, None)"
| "print_fields ((pre, key, post) # fs) d out =
     (case map_of d key of
        None \<Rightarrow> (out, Some (KeyError key))
      | Some v \<Rightarrow> print_fields fs d (out @ [Fmt pre v post]))"

text \<open>
  \<open>main\<close>, from the parsed namespace on: what it prints, and the exception that leaves it,
  if any.
\<close>

definition main :: "world \<Rightarrow> args \<Rightarrow> printed list \<times> exn option" where
  "main w a =
     (let api_key = (if truthy_opt (ns_deepseek_key a) then ns_deepseek_key a else w_environ w);
          q = (if ns_query a \<noteq> [] then join '' '' (ns_query a) else w_stdin w);
          prompted = (if ns_query a \<noteq> [] then [] else [Line ''Enter your query: ''])
      in case rag_answer (w_ddgs w) api_key (w_create w) (PyStr q) (ns_max_results a) (ns_model a) of
           Inl e \<Rightarrow> (prompted, Some e)
         | Inr (out, logged) \<Rightarrow>
             (let shown = prompted @ map Line logged
                    @ [Line ''\<newline>=== Generated Answer ===\<newline>'', Line (answer out),
                       Line ''\<newline>=== Sources ===\<newline>'']
                    @ print_sources 1 (sources out)
              in if truthy (ns_evaluate a) then
                   (let shown' = shown @ [Line ''\<newline>=== Evaluating Response ===\<newline>'']
                    in case evaluate_response api_key (w_create w) (w_loads w) q (answer out)
                              (sources out) (ns_eval_model a) of
                         Inl e \<Rightarrow> (shown', Some e)
                       | Inr eval_result \<Rightarrow> print_fields report_fields eval_result shown')
                 else (shown, None)))"

section \<open>Numbers in a report\<close>

text \<open>The values \<open>v * 0.3\<close> accepts, and the number each of them is.\<close>

fun is_number :: "json \<Rightarrow> bool" where
  "is_number (JInt n) = True"
| "is_number (JFloat x) = True"
| "is_number (JBool b) = True"
| "is_number v = False"

fun number_value :: "json \<Rightarrow> rat" where
  "number_value (JInt n) = of_int n"
| "number_value (JFloat x) = x"
| "number_value (JBool b) = (if b then 1 else 0)"
| "number_value v = 0"

definition score_keys :: "string list" where
  "score_keys = [''accuracy_score'', ''relevance_score'', ''search_quality'', ''citation_quality'']"

section \<open>Collaborators of the examples\<close>

text \<open>
  An endpoint that answers every request with one choice of the given text, and one that
  raises; a parser that knows the given texts and raises \<open>JSONDecodeError\<close> on every
  other; a backend that returns the given stream.
\<close>

definition replies :: "string \<Rightarrow> completion" where
  "replies t req = Inr [Some t]"

definition fails :: "exn \<Rightarrow> completion" where
  "fails e req = Inl e"

definition table_parser :: "(string \<times> json) list \<Rightarrow> parser" where
  "table_parser tbl s =
     (case map_of tbl s of
        Some v \<Rightarrow> Inr v
      | None \<Rightarrow> Inl (ExternalError ''JSONDecodeError'' ''Expecting value: line 1 column 1 (char 0)''))"

definition yields :: "stream \<Rightarrow> backend" where
  "yields s q safesearch timelimit = s"

definition full_item :: item where
  "full_item = [''title'' \<mapsto> ''T'', ''href'' \<mapsto> ''u'', ''body'' \<mapsto> ''d'']"

definition bare_item :: item where
  "bare_item = Map.empty"

definition scores_8679 :: report where
  "scores_8679 =
     [(''accuracy_score'', JInt 8), (''relevance_score'', JInt 6),
      (''search_quality'', JInt 7), (''citation_quality'', JInt 9),
      (''feedback'', JStr ''ok''), (''strengths'', JStr ''s''), (''opportunity'', JStr ''o'')]"

text \<open>
  The weighted average of the specification: \<open>0.3 * accuracy + 0.3 * relevance +
  0.3 * search_quality + 0.1 * citation_quality\<close>, a missing score counted as 5, rounded
  to one decimal.
\<close>

definition weighted_average :: "report \<Rightarrow> rat" where
  "weighted_average d =
     py_round1 (3 / 10 * number_value (dict_get d ''accuracy_score'' (JInt 5))
              + 3 / 10 * number_value (dict_get d ''relevance_score'' (JInt 5))
              + 3 / 10 * number_value (dict_get d ''search_quality'' (JInt 5))
              + 1 / 10 * number_value (dict_get d ''citation_quality'' (JInt 5)))"

text \<open>Whether the evaluation stage ran, read off standard output.\<close>

definition evaluation_ran :: "printed list \<Rightarrow> bool" where
  "evaluation_ran out = (Line ''\<newline>=== Evaluating Response ===\<newline>'' \<in> set out)"

section \<open>Example responses and runs\<close>

definition scores_8679_text :: string where
  "scores_8679_text =
     ''{\"accuracy_score\": 8, \"relevance_score\": 6, \"search_quality\": 7, \"citation_quality\": 9, \"feedback\": \"ok\", \"strengths\": \"s\", \"opportunity\": \"o\"}''"

text \<open>A response whose accuracy score is a JSON string.\<close>

definition string_score :: report where
  "string_score = [(''accuracy_score'', JStr ''8''), (''feedback'', JStr ''f'')]"

definition string_score_text :: string where
  "string_score_text = ''{\"accuracy_score\": \"8\", \"feedback\": \"f\"}''"

text \<open>A response with an accuracy score out of range and three scores missing.\<close>

definition wide_score :: report where
  "wide_score = [(''accuracy_score'', JInt 42), (''feedback'', JStr ''f'')]"

definition wide_score_text :: string where
  "wide_score_text = ''{\"accuracy_score\": 42, \"feedback\": \"f\"}''"

definition example_parser :: parser where
  "example_parser =
     table_parser [(scores_8679_text, JObj scores_8679), (string_score_text, JObj string_score),
                   (wide_score_text, JObj wide_score), (''[]'', JArr [])]"

definition placeholder_item :: item where
  "placeholder_item = [''title'' \<mapsto> ''(no title)'', ''url'' \<mapsto> ''(no url)'']"

text \<open>A run without a key, and a run with a key whose endpoint returns the scores above;
  in both the backend is available and finds nothing.\<close>

definition no_key_world :: world where
  "no_key_world =
     \<lparr> w_ddgs = Some (yields Stop), w_environ = None, w_create = replies ''x'',
       w_loads = example_parser, w_stdin = [] \<rparr>"

definition keyed_world :: world where
  "keyed_world =
     \<lparr> w_ddgs = Some (yields Stop), w_environ = Some ''k'', w_create = replies scores_8679_text,
       w_loads = example_parser, w_stdin = [] \<rparr>"

section \<open>Properties of the search provider\<close>

lemma collect_length_le:
  "1 \<le> k \<Longrightarrow> int (length acc) < k \<Longrightarrow> int (length (fst (collect s k acc))) \<le> k"
proof (induction s arbitrary: acc)
  case (Yield item rest)
  show ?case
  proof (cases "k \<le> int (length (acc @ [to_result item]))")
    case True
    with Yield.prems show ?thesis by (simp add: Let_def)
  next
    case False
    then have "int (length (acc @ [to_result item])) < k" by simp
    from Yield.IH [OF Yield.prems(1) this] False show ?thesis by (simp add: Let_def)
  qed
qed simp_all

lemma collect_extends: "length acc \<le> length (fst (collect s k acc))"
proof (induction s arbitrary: acc)
  case (Yield item rest)
  have "length acc \<le> length (acc @ [to_result item])" by simp
  also have "\<dots> \<le> length (fst (collect rest k (acc @ [to_result item])))" by (rule Yield.IH)
  finally show ?case by (simp add: Let_def)
qed simp_all

text \<open>
  For a positive \<open>max_results\<close> the bound holds: at most \<open>max_results\<close> results come back.
\<close>

lemma search_length_le_positive:
  assumes "1 \<le> k"
    and "search_duckduckgo ddgs (PyStr q) k ss tlim = Inr (results, logged)"
  shows "int (length results) \<le> k"
proof -
  from assms(2) obtain bt where r: "collect (bt q ss tlim) k [] = (results, logged)"
    by (auto simp: search_duckduckgo_def split: option.splits)
  have "int (length (fst (collect (bt q ss tlim) k []))) \<le> k"
    using assms(1) by (intro collect_length_le) simp_all
  with r show ?thesis by (metis fst_conv)
qed

text \<open>
  A search returns nothing only when the backend yields nothing or raises before its
  first item.
\<close>

lemma search_empty_only_if:
  assumes "search_duckduckgo (Some bt) (PyStr q) k ss tlim = Inr ([], logged)"
  shows "bt q ss tlim = Stop \<or> (\<exists>e. bt q ss tlim = Raises e)"
proof (cases "bt q ss tlim")
  case (Yield item rest)
  have "length [to_result item] \<le> length (fst (collect rest k [to_result item]))"
    by (rule collect_extends)
  with assms Yield show ?thesis
    by (auto simp: search_duckduckgo_def Let_def split: if_splits)
qed simp_all

text \<open>
  C3. The claim bounds the number of results by \<open>max_results\<close> for every integer. The loop
  appends an item before it compares the length with \<open>max_results\<close>, so with
  \<open>max_results = 0\<close> and a backend that yields one item the search returns one result.
\<close>

theorem search_max_results_zero:
  "search_duckduckgo (Some (yields (Yield full_item Stop))) (PyStr ''q'') 0 ''moderate'' ''m''
     = Inr ([\<lparr> title = Some ''T'', url = Some ''u'', description = Some ''d'' \<rparr>], [])"
  by (simp add: search_duckduckgo_def yields_def full_item_def to_result_def py_or_def
      truthy_opt_def Let_def)

text \<open>
  C9. A query that is no string makes the search raise \<open>TypeError\<close> (the spec's
  InvalidArgument), whatever the backend is and whether or not it is available: no stream
  of the backend is read and nothing is returned or printed. The answer generator does
  not catch it, so its caller receives the same exception.
\<close>

theorem non_string_query_raises:
  assumes "\<not> is_str qv"
  shows "search_duckduckgo ddgs qv k ss tlim = Inl (TypeError ''query must be a string'')
       \<and> rag_answer ddgs api_key create qv k model = Inl (TypeError ''query must be a string'')"
  using assms by (cases qv) (simp_all add: search_duckduckgo_def rag_answer_def)

theorem non_string_query_raises_witness:
  "\<not> is_str (PyInt 5) \<and> \<not> is_str PyNone
   \<and> search_duckduckgo (Some (yields (Yield full_item Stop))) (PyInt 5) 3 ''moderate'' ''m''
       = Inl (TypeError ''query must be a string'')
   \<and> rag_answer (Some (yields (Yield full_item Stop))) (Some ''k'') (replies ''x'') PyNone 3
         ''deepseek-chat''
       = Inl (TypeError ''query must be a string'')"
  using non_string_query_raises [of "PyInt 5" "Some (yields (Yield full_item Stop))" 3
          "''moderate''" "''m''"]
        non_string_query_raises [of PyNone "Some (yields (Yield full_item Stop))" 3
          "''moderate''" "''m''" "Some ''k''" "replies ''x''" "''deepseek-chat''"]
  by simp

section \<open>Properties of the answer generator\<close>

lemma generate_Inl_iff:
  "generate create model q context = Inl e \<longleftrightarrow>
     create (answer_request model q context) = Inl e
     \<or> (\<exists>choices. create (answer_request model q context) = Inr choices
           \<and> first_content choices = Inl e)"
  by (auto simp: generate_def split: sum.splits)

lemma search_full_item:
  "search_duckduckgo (Some (yields (Yield full_item Stop))) (PyStr ''q'') 3 ''moderate'' ''m''
     = Inr ([\<lparr> title = Some ''T'', url = Some ''u'', description = Some ''d'' \<rparr>], [])"
  by (simp add: search_duckduckgo_def yields_def full_item_def to_result_def py_or_def
      truthy_opt_def Let_def)

lemma build_context_full_item:
  "build_context [\<lparr> title = Some ''T'', url = Some ''u'', description = Some ''d'' \<rparr>]
     = ''[1] T\<newline>u\<newline>d''"
  by code_simp

text \<open>
  C6. The search stage has returned \<open>results\<close>, a key is configured, and the answer call
  fails with \<open>e\<close>: the endpoint raises \<open>e\<close>, or its response has no choice or no content
  to read. Then \<open>rag_answer\<close> returns; its answer is the error text with \<open>str(e)\<close> in it,
  followed by the whole context, and its sources are \<open>results\<close>.
\<close>

theorem rag_answer_generation_failure:
  assumes "search_duckduckgo ddgs (PyStr q) k ''moderate'' ''m'' = Inr (results, logged)"
    and "truthy_opt api_key"
    and "create (answer_request model q (build_context results)) = Inl e
         \<or> (\<exists>choices. create (answer_request model q (build_context results)) = Inr choices
               \<and> first_content choices = Inl e)"
  shows "rag_answer ddgs api_key create (PyStr q) k model =
           Inr (\<lparr> query = q,
                  answer = ''DeepSeek API error: '' @ str_exn e
                    @ ''\<newline>\<newline>Fallback search results:\<newline>'' @ build_context results,
                  sources = results \<rparr>, logged)"
proof -
  from assms(3) have "generate create model q (build_context results) = Inl e"
    by (simp add: generate_Inl_iff)
  with assms(1,2) show ?thesis by (simp add: rag_answer_def Let_def)
qed

theorem rag_answer_generation_failure_witness:
  "rag_answer (Some (yields (Yield full_item Stop))) (Some ''k'')
      (fails (ExternalError ''APITimeoutError'' ''Request timed out.'')) (PyStr ''q'') 3
      ''deepseek-chat''
    = Inr (\<lparr> query = ''q'',
             answer = ''DeepSeek API error: Request timed out.\<newline>\<newline>Fallback search results:\<newline>[1] T\<newline>u\<newline>d'',
             sources = [\<lparr> title = Some ''T'', url = Some ''u'', description = Some ''d'' \<rparr>] \<rparr>,
           [])"
proof -
  have t: "truthy_opt (Some ''k'')" by (simp add: truthy_opt_def)
  have g: "fails (ExternalError ''APITimeoutError'' ''Request timed out.'')
             (answer_request ''deepseek-chat'' ''q''
               (build_context [\<lparr> title = Some ''T'', url = Some ''u'', description = Some ''d'' \<rparr>]))
           = Inl (ExternalError ''APITimeoutError'' ''Request timed out.'')
         \<or> (\<exists>choices. fails (ExternalError ''APITimeoutError'' ''Request timed out.'')
             (answer_request ''deepseek-chat'' ''q''
               (build_context [\<lparr> title = Some ''T'', url = Some ''u'', description = Some ''d'' \<rparr>]))
              = Inr choices
             \<and> first_content choices = Inl (ExternalError ''APITimeoutError'' ''Request timed out.''))"
    by (simp add: fails_def)
  show ?thesis
    using rag_answer_generation_failure
      [where create = "fails (ExternalError ''APITimeoutError'' ''Request timed out.'')"
         and model = "''deepseek-chat''" and e = "ExternalError ''APITimeoutError'' ''Request timed out.''",
       OF search_full_item t g]
    by (simp add: build_context_full_item)
qed

section \<open>Properties of the evaluator\<close>

subsection \<open>Rounding to one decimal\<close>

lemma py_round1_tenth: "\<exists>n::int. py_round1 x = of_int n / 10"
  by (simp add: py_round1_def Let_def)

lemma py_round1_near: "\<bar>py_round1 x - x\<bar> \<le> 1 / 20"
proof -
  define f where "f = \<lfloor>x * 10\<rfloor>"
  have b: "of_int f \<le> x * 10" "x * 10 < of_int f + 1"
    unfolding f_def by linarith+
  have "py_round1 x = of_int f / 10 \<and> x * 10 - of_int f \<le> 1 / 2
      \<or> py_round1 x = of_int (f + 1) / 10 \<and> 1 / 2 \<le> x * 10 - of_int f"
    unfolding py_round1_def Let_def f_def[symmetric] by auto
  then show ?thesis
    using b by (auto simp: abs_if field_simps)
qed

lemma py_round1_17_3: "py_round1 (17 / 3) = 57 / 10"
  by code_simp

subsection \<open>The heuristic path\<close>

text \<open>
  C4. Without a configured key \<open>evaluate_response\<close> returns the heuristic report: accuracy
  6 with a source and 4 without, relevance 7 above twenty words and 5 otherwise, citation
  quality 8 with both brackets in the answer and 4 otherwise, the overall score their mean
  rounded to one decimal, and no \<open>search_quality\<close> entry.
\<close>

theorem heuristic_scores:
  assumes "\<not> truthy_opt api_key"
  shows "\<exists>d. evaluate_response api_key create loads q ans srcs model = Inr d
     \<and> map_of d ''accuracy_score'' = Some (JInt (if srcs \<noteq> [] then 6 else 4))
     \<and> map_of d ''relevance_score'' = Some (JInt (if length (split_str ans) > 20 then 7 else 5))
     \<and> map_of d ''citation_quality''
         = Some (JInt (if CHR ''['' \<in> set ans \<and> CHR '']'' \<in> set ans then 8 else 4))
     \<and> map_of d ''overall_score''
         = Some (JFloat (py_round1 (of_int ((if srcs \<noteq> [] then 6 else 4)
               + (if length (split_str ans) > 20 then 7 else 5)
               + (if CHR ''['' \<in> set ans \<and> CHR '']'' \<in> set ans then 8 else 4)) / 3)))
     \<and> map_of d ''search_quality'' = None"
  using assms by (simp add: evaluate_response_def fallback_evaluation_def Let_def)

theorem heuristic_scores_witness:
  "\<exists>d. evaluate_response None (replies ''x'') example_parser ''q'' ''a [1] b'' [] ''m'' = Inr d
     \<and> map_of d ''accuracy_score'' = Some (JInt 4)
     \<and> map_of d ''relevance_score'' = Some (JInt 5)
     \<and> map_of d ''citation_quality'' = Some (JInt 8)
     \<and> map_of d ''overall_score'' = Some (JFloat (57 / 10))
     \<and> map_of d ''search_quality'' = None"
proof -
  have k: "\<not> truthy_opt None" by (simp add: truthy_opt_def)
  have w: "\<not> 20 < length (split_str ''a [1] b'')" by code_simp
  show ?thesis
    using heuristic_scores [OF k, of "replies ''x''" example_parser "''q''" "''a [1] b''" "[]" "''m''"]
    by (simp add: w py_round1_17_3)
qed

subsection \<open>The model path\<close>

lemma times_float_number: "is_number v \<Longrightarrow> times_float v w = Inr (number_value v * w)"
  by (cases v) simp_all

lemma times_float_not_number: "\<not> is_number v \<Longrightarrow> \<exists>m. times_float v w = Inl (TypeError m)"
  by (cases v) simp_all

lemma weighted_overall_numbers:
  assumes "\<forall>k \<in> set score_keys. is_number (dict_get d k (JInt 5))"
  shows "weighted_overall d =
           Inr (number_value (dict_get d ''accuracy_score'' (JInt 5)) * (3 / 10)
              + number_value (dict_get d ''relevance_score'' (JInt 5)) * (3 / 10)
              + number_value (dict_get d ''search_quality'' (JInt 5)) * (3 / 10)
              + number_value (dict_get d ''citation_quality'' (JInt 5)) * (1 / 10))"
  using assms by (simp add: weighted_overall_def score_keys_def times_float_number)

lemma eval_try_object:
  assumes "create (eval_request model prompt) = Inr choices"
    and "first_content choices = Inr eval_text"
    and "loads eval_text = Inr (JObj d)"
    and "\<forall>k \<in> set score_keys. is_number (dict_get d k (JInt 5))"
  shows "eval_try create loads model prompt
           = Inr (dict_set d ''overall_score'' (JFloat (weighted_average d)))"
proof -
  have "weighted_overall d =
           Inr (number_value (dict_get d ''accuracy_score'' (JInt 5)) * (3 / 10)
              + number_value (dict_get d ''relevance_score'' (JInt 5)) * (3 / 10)
              + number_value (dict_get d ''search_quality'' (JInt 5)) * (3 / 10)
              + number_value (dict_get d ''citation_quality'' (JInt 5)) * (1 / 10))"
    by (rule weighted_overall_numbers [OF assms(4)])
  then show ?thesis
    using assms(1-3) by (simp add: eval_try_def weighted_average_def mult.commute)
qed


text \<open>Every way the \<open>try\<close> block can fail.\<close>

lemma eval_try_Inl_iff:
  "eval_try create loads model prompt = Inl e \<longleftrightarrow>
     create (eval_request model prompt) = Inl e
   \<or> (\<exists>choices. create (eval_request model prompt) = Inr choices \<and>
        (first_content choices = Inl e
         \<or> (\<exists>t. first_content choices = Inr t \<and>
              (loads t = Inl e
               \<or> (\<exists>v. loads t = Inr v \<and>
                    ((\<forall>d. v \<noteq> JObj d) \<and> e = AttributeError
                         (quoted (type_name v) @ '' object has no attribute '' @ quoted ''get'')
                     \<or> (\<exists>d. v = JObj d \<and> weighted_overall d = Inl e)))))))"
  by (auto simp: eval_try_def split: sum.splits json.splits)


lemma truthy_key: "truthy_opt (Some ''k'')"
  by (simp add: truthy_opt_def)

lemma strip_scores_8679_text: "strip scores_8679_text = scores_8679_text"
  by code_simp




lemma parse_scores_8679: "example_parser scores_8679_text = Inr (JObj scores_8679)"
  by (simp add: example_parser_def table_parser_def)




lemma weighted_average_8679: "weighted_average scores_8679 = 36 / 5"
  by code_simp






lemma scores_8679_numbers: "\<forall>k \<in> set score_keys. is_number (dict_get scores_8679 k (JInt 5))"
  by (simp add: score_keys_def scores_8679_def dict_get_def)







text \<open>A response that is a JSON array parses too, and ends in the neutral report.\<close>

lemma array_response_neutral:
  "evaluate_response (Some ''k'') (replies ''[]'') example_parser ''q'' ''a'' [] ''deepseek-chat''
   = Inr (neutral_report (AttributeError
       (quoted ''list'' @ '' object has no attribute '' @ quoted ''get'')))"
proof -
  have s: "strip ''[]'' = ''[]''" by code_simp
  have p: "example_parser ''[]'' = Inr (JArr [])"
    unfolding example_parser_def table_parser_def by code_simp
  show ?thesis
    by (simp add: evaluate_response_def truthy_key eval_try_def replies_def first_content_def s p)
qed

section \<open>The context built from the search results\<close>

lemma build_docs_length: "length (build_docs n rs) = length rs"
  by (induction rs arbitrary: n) simp_all

lemma build_docs_nth: "i < length rs \<Longrightarrow> build_docs n rs ! i = context_block (n + i) (rs ! i)"
proof (induction rs arbitrary: n i)
  case Nil
  then show ?case by simp
next
  case (Cons r rs)
  show ?case
  proof (cases i)
    case 0
    then show ?thesis by simp
  next
    case (Suc j)
    with Cons.prems have "j < length rs" by simp
    from Cons.IH [OF this, of "Suc n"] Suc show ?thesis by simp
  qed
qed

lemma description_to_result: "description (to_result item) \<noteq> Some []"
  by (simp add: to_result_def py_or_def truthy_opt_def split: option.splits)

lemma collect_descriptions:
  assumes "\<forall>r \<in> set acc. description r \<noteq> Some []"
  shows "\<forall>r \<in> set (fst (collect s k acc)). description r \<noteq> Some []"
  using assms
proof (induction s arbitrary: acc)
  case (Yield item rest)
  have "\<forall>r \<in> set (acc @ [to_result item]). description r \<noteq> Some []"
    using Yield.prems by (simp add: description_to_result)
  from Yield.IH [OF this] this show ?case by (simp add: Let_def)
qed simp_all

lemma search_descriptions:
  assumes "search_duckduckgo ddgs (PyStr q) k ss tlim = Inr (results, logged)"
  shows "\<forall>r \<in> set results. description r \<noteq> Some []"
proof -
  from assms obtain bt where r: "collect (bt q ss tlim) k [] = (results, logged)"
    by (auto simp: search_duckduckgo_def split: option.splits)
  have "\<forall>r \<in> set (fst (collect (bt q ss tlim) k [])). description r \<noteq> Some []"
    by (rule collect_descriptions) simp
  with r show ?thesis by simp
qed

text \<open>
  C7, as amended. For the \<open>i\<close>-th result of a search, the block built for it is
  \<open>[i] T\<newline>U\<newline>D\<close>, where \<open>T\<close> is the title when the title is present and not empty
  and the placeholder \<open>(no title)\<close> otherwise, \<open>U\<close> is the url when it is present and not
  empty and \<open>(no url)\<close> otherwise, and \<open>D\<close> is the description when it is present and empty
  otherwise. A description the search provider returns is never the empty string.
\<close>

theorem context_block_of_search_result:
  assumes "search_duckduckgo ddgs (PyStr q) k ss tlim = Inr (results, logged)"
    and "i < length results"
  shows "\<exists>T U D. build_docs 1 results ! i
             = ''['' @ str_nat (Suc i) @ ''] '' @ T @ ''\<newline>'' @ U @ ''\<newline>'' @ D
         \<and> (\<forall>t. title (results ! i) = Some t \<longrightarrow> t \<noteq> [] \<longrightarrow> T = t)
         \<and> (title (results ! i) = None \<or> title (results ! i) = Some [] \<longrightarrow> T = ''(no title)'')
         \<and> (\<forall>u. url (results ! i) = Some u \<longrightarrow> u \<noteq> [] \<longrightarrow> U = u)
         \<and> (url (results ! i) = None \<or> url (results ! i) = Some [] \<longrightarrow> U = ''(no url)'')
         \<and> (\<forall>d. description (results ! i) = Some d \<longrightarrow> D = d \<and> d \<noteq> [])
         \<and> (description (results ! i) = None \<longrightarrow> D = [])"
proof -
  let ?r = "results ! i"
  have b: "build_docs 1 results ! i
             = ''['' @ str_nat (Suc i) @ ''] '' @ or_str (title ?r) ''(no title)'' @ ''\<newline>''
               @ or_str (url ?r) ''(no url)'' @ ''\<newline>'' @ or_str (description ?r) []"
    using assms(2) by (simp add: build_docs_nth context_block_def Let_def)
  have d: "description ?r \<noteq> Some []"
    using search_descriptions [OF assms(1)] assms(2) by simp
  show ?thesis
    apply (rule exI [of _ "or_str (title ?r) ''(no title)''"])
    apply (rule exI [of _ "or_str (url ?r) ''(no url)''"])
    apply (rule exI [of _ "or_str (description ?r) []"])
    using b d by (auto simp: or_str_def)
qed

lemma search_two_items:
  "search_duckduckgo (Some (yields (Yield full_item (Yield bare_item Stop)))) (PyStr ''q'') 3
      ''moderate'' ''m''
     = Inr ([\<lparr> title = Some ''T'', url = Some ''u'', description = Some ''d'' \<rparr>,
             \<lparr> title = None, url = None, description = None \<rparr>], [])"
  by (simp add: search_duckduckgo_def yields_def full_item_def bare_item_def to_result_def
      py_or_def truthy_opt_def Let_def)

lemma str_nat_1: "str_nat (Suc 0) = ''1''"
  by code_simp

lemma str_nat_2: "str_nat (Suc (Suc 0)) = ''2''"
  by code_simp

theorem context_block_of_search_result_witness:
  "build_docs 1 [\<lparr> title = Some ''T'', url = Some ''u'', description = Some ''d'' \<rparr>,
                 \<lparr> title = None, url = None, description = None \<rparr>] ! 0 = ''[1] T\<newline>u\<newline>d''
   \<and> build_docs 1 [\<lparr> title = Some ''T'', url = Some ''u'', description = Some ''d'' \<rparr>,
                   \<lparr> title = None, url = None, description = None \<rparr>] ! 1
       = ''[2] (no title)\<newline>(no url)\<newline>''"
  using context_block_of_search_result [OF search_two_items, of 0]
        context_block_of_search_result [OF search_two_items, of 1]
  by (auto simp: str_nat_1 str_nat_2)

text \<open>
  The claim as stated includes the results with an absent field. The result of an item
  without any key has no title, and its block shows the text \<open>(no title)\<close>; the same block
  is built for the result whose title is the text \<open>(no title)\<close> and whose url is
  \<open>(no url)\<close>, so the block does not give back the fields.
\<close>

theorem context_block_absent_counterexample:
  "title (to_result bare_item) = None
   \<and> context_block 1 (to_result bare_item) = ''[1] (no title)\<newline>(no url)\<newline>''
   \<and> context_block 1 (to_result placeholder_item) = context_block 1 (to_result bare_item)
   \<and> title (to_result placeholder_item) = Some ''(no title)''"
  by (simp add: to_result_def bare_item_def placeholder_item_def context_block_def or_str_def
      py_or_def truthy_opt_def Let_def str_nat_1)

section \<open>Properties of the command surface\<close>

lemma print_fields_fallback:
  "print_fields report_fields (fallback_evaluation api_key q ans srcs) out
     = (out @ [Fmt ''Accuracy Score:      '' (JInt (if srcs \<noteq> [] then 6 else 4)) ''/10'',
               Fmt ''Relevance Score:     '' (JInt (if 20 < length (split_str ans) then 7 else 5)) ''/10''],
        Some (KeyError ''search_quality''))"
  by (simp add: report_fields_def fallback_evaluation_def Let_def)

text \<open>
  Every run without a key, with the backend available and the evaluation requested, ends
  in \<open>KeyError: 'search_quality'\<close>: the heuristic report lacks the key \<open>main\<close> prints third.
\<close>

lemma main_without_key_raises:
  assumes "\<not> truthy_opt (w_environ w)" and "\<not> truthy_opt (ns_deepseek_key a)"
    and "w_ddgs w = Some b" and "truthy (ns_evaluate a)"
  shows "snd (main w a) = Some (KeyError ''search_quality'')"
  using assms
  by (simp add: main_def Let_def rag_answer_def search_duckduckgo_def evaluate_response_def
      print_fields_fallback split: prod.splits)

text \<open>
  C2. The claim lets only \<open>TypeError\<close> (InvalidArgument) and \<open>RuntimeError\<close>
  (DependencyUnavailable) leave \<open>main\<close>, and promises a complete printed report whenever
  the evaluation was requested. The run \<open>main(["hello"])\<close> without a key, with the backend
  available, prints the answer, the sources header, the evaluation header and two scores,
  and then \<open>KeyError: 'search_quality'\<close> leaves \<open>main\<close>.
\<close>

theorem main_no_key_key_error:
  "main no_key_world (default_args \<lparr> ns_query := [''hello''] \<rparr>)
     = ([Line ''\<newline>=== Generated Answer ===\<newline>'',
         Line no_key_text,
         Line ''\<newline>=== Sources ===\<newline>'',
         Line ''\<newline>=== Evaluating Response ===\<newline>'',
         Fmt ''Accuracy Score:      '' (JInt 4) ''/10'',
         Fmt ''Relevance Score:     '' (JInt 5) ''/10''],
        Some (KeyError ''search_quality''))"
proof -
  have w: "\<not> 20 < length (split_str no_key_text)" by code_simp
  show ?thesis
    by (simp add: main_def Let_def no_key_world_def default_args_def rag_answer_def
        search_duckduckgo_def yields_def build_context_def truthy_opt_def evaluate_response_def
        print_fields_fallback w)
qed

text \<open>What \<open>--evaluate\<close> stores is falsy for the empty string only.\<close>

lemma truthy_evaluate_attr: "truthy (evaluate_attr given) \<longleftrightarrow> given \<noteq> Some []"
  by (cases given) (simp_all add: evaluate_attr_def)

lemma main_evaluation_runs:
  assumes "truthy (ns_evaluate a)"
    and "rag_answer (w_ddgs w)
           (if truthy_opt (ns_deepseek_key a) then ns_deepseek_key a else w_environ w)
           (w_create w)
           (PyStr (if ns_query a \<noteq> [] then join '' '' (ns_query a) else w_stdin w))
           (ns_max_results a) (ns_model a) = Inr (out, logged)"
  shows "evaluation_ran (fst (main w a))"
proof -
  have p: "Line ''\<newline>=== Evaluating Response ===\<newline>'' \<in> set (fst (print_fields fs d acc))"
    if "Line ''\<newline>=== Evaluating Response ===\<newline>'' \<in> set acc" for fs d acc
    using that by (induction fs d acc rule: print_fields.induct) (auto split: option.splits)
  show ?thesis
    using assms
    by (auto simp: main_def Let_def evaluation_ran_def intro!: p split: sum.splits)
qed

lemma main_evaluation_skipped:
  assumes "\<not> truthy (ns_evaluate a)"
    and "rag_answer (w_ddgs w)
           (if truthy_opt (ns_deepseek_key a) then ns_deepseek_key a else w_environ w)
           (w_create w)
           (PyStr (if ns_query a \<noteq> [] then join '' '' (ns_query a) else w_stdin w))
           (ns_max_results a) (ns_model a) = Inr (out, logged)"
  shows "main w a
           = ((if ns_query a \<noteq> [] then [] else [Line ''Enter your query: ''])
                @ map Line logged
                @ [Line ''\<newline>=== Generated Answer ===\<newline>'', Line (answer out),
                   Line ''\<newline>=== Sources ===\<newline>'']
                @ print_sources 1 (sources out), None)"
  using assms by (simp add: main_def Let_def)

text \<open>
  C8. The claim has the evaluation stage skipped for every false value of \<open>--evaluate\<close>.
  The option stores its argument as a string, and a non-empty string is true: the run
  \<open>main(["hello", "--evaluate", "False"])\<close> holds \<open>evaluate = "False"\<close>, runs the evaluation
  and prints the whole report.
\<close>

theorem main_evaluate_False_runs:
  "evaluate_attr (Some ''False'') = PyStr ''False''
   \<and> main keyed_world
       (default_args \<lparr> ns_query := [''hello''], ns_evaluate := evaluate_attr (Some ''False'') \<rparr>)
     = ([Line ''\<newline>=== Generated Answer ===\<newline>'',
         Line scores_8679_text,
         Line ''\<newline>=== Sources ===\<newline>'',
         Line ''\<newline>=== Evaluating Response ===\<newline>'',
         Fmt ''Accuracy Score:      '' (JInt 8) ''/10'',
         Fmt ''Relevance Score:     '' (JInt 6) ''/10'',
         Fmt ''Search Quality:     '' (JInt 7) ''/10'',
         Fmt ''Citation Quality:    '' (JInt 9) ''/10'',
         Fmt ''Overall Score:       '' (JFloat (36 / 5)) ''/10'',
         Fmt ''\<newline>Feedback: '' (JStr ''ok'') [],
         Fmt ''Strengths: '' (JStr ''s'') [],
         Fmt ''Opportunity: '' (JStr ''o'') []],
        None)"
proof -
  have c: "replies scores_8679_text
             (eval_request ''deepseek-chat''
               (eval_prompt ''hello'' scores_8679_text (sources_text [])))
           = Inr [Some scores_8679_text]"
    by (simp add: replies_def)
  have f: "first_content [Some scores_8679_text] = Inr scores_8679_text"
    by (simp add: first_content_def strip_scores_8679_text)
  have "eval_try (replies scores_8679_text) example_parser ''deepseek-chat''
          (eval_prompt ''hello'' scores_8679_text (sources_text []))
        = Inr (dict_set scores_8679 ''overall_score'' (JFloat (weighted_average scores_8679)))"
    using c f parse_scores_8679 scores_8679_numbers by (rule eval_try_object)
  then have e: "evaluate_response (Some ''k'') (replies scores_8679_text) example_parser ''hello''
             scores_8679_text [] ''deepseek-chat''
           = Inr (dict_set scores_8679 ''overall_score'' (JFloat (36 / 5)))"
    by (simp add: evaluate_response_def truthy_key weighted_average_8679)
  have g: "generate (replies scores_8679_text) ''deepseek-chat'' ''hello'' (build_context [])
             = Inr scores_8679_text"
    by (simp add: generate_def replies_def f)
  have r: "rag_answer (Some (yields Stop)) (Some ''k'') (replies scores_8679_text) (PyStr ''hello'')
             5 ''deepseek-chat''
           = Inr (\<lparr> query = ''hello'', answer = scores_8679_text, sources = [] \<rparr>, [])"
    by (simp add: rag_answer_def search_duckduckgo_def yields_def truthy_key g Let_def)
  have p: "print_fields report_fields
             (dict_set scores_8679 ''overall_score'' (JFloat (36 / 5))) acc
           = (acc @ [Fmt ''Accuracy Score:      '' (JInt 8) ''/10'',
                     Fmt ''Relevance Score:     '' (JInt 6) ''/10'',
                     Fmt ''Search Quality:     '' (JInt 7) ''/10'',
                     Fmt ''Citation Quality:    '' (JInt 9) ''/10'',
                     Fmt ''Overall Score:       '' (JFloat (36 / 5)) ''/10'',
                     Fmt ''\<newline>Feedback: '' (JStr ''ok'') [],
                     Fmt ''Strengths: '' (JStr ''s'') [],
                     Fmt ''Opportunity: '' (JStr ''o'') []], None)" for acc
    by (simp add: report_fields_def dict_set_def scores_8679_def)
  show ?thesis
    by (simp add: main_def Let_def keyed_world_def default_args_def evaluate_attr_def
        truthy_opt_def r e p)
qed

end
